theory Spec2Isabelle
  imports Main
begin

section \<open>Theme management (js/theme.js)\<close>

text \<open>
  The module keeps a light/dark theme in three places: the field \<^verbatim>\<open>currentTheme\<close> of the
  \<^verbatim>\<open>ThemeManager\<close> object, the attribute \<^verbatim>\<open>data-theme\<close> of the document element and the
  \<^verbatim>\<open>localStorage\<close> entry \<^verbatim>\<open>theme-preference\<close>. The embedding below follows the source method by
  method. The browser is a record of the parts the code reads or writes; exceptions of
  \<^verbatim>\<open>localStorage\<close> are values of a sum type and each \<^verbatim>\<open>try/catch\<close> is a case distinction on them.
\<close>

subsection \<open>JavaScript values\<close>

text \<open>
  Arguments handed to \<^verbatim>\<open>setTheme\<close> from outside may be any JavaScript value. Strings are byte
  lists (UTF-8); numbers are integers here, which is enough for the strict comparison with a string
  literal, the only thing the code does with such an argument.
\<close>

datatype jsval = JUndefined | JNull | JBoolean bool | JNumber int | JString string

text \<open>The exception a storage access throws (a \<^verbatim>\<open>DOMException\<close>: access denied, quota exceeded).\<close>

datatype exn = StorageError

text \<open>Entries written by \<^verbatim>\<open>console.warn\<close> in the two \<^verbatim>\<open>catch\<close> blocks of the class.\<close>

datatype warning = CannotReadPreference exn | CannotSavePreference exn

subsection \<open>The page\<close>

text \<open>A \<^verbatim>\<open>#themeToggleButton\<close> element: its \<^verbatim>\<open>title\<close> property and its \<^verbatim>\<open>aria-label\<close> attribute.\<close>

record button =
  title :: string
  aria_label :: "string option"

text \<open>
  \<^item> \<open>stored\<close>: the value of \<^verbatim>\<open>localStorage\<close> under the key \<^verbatim>\<open>theme-preference\<close>, \<open>None\<close> when there is
    no entry (\<^verbatim>\<open>getItem\<close> returns \<^verbatim>\<open>null\<close>);
  \<^item> \<open>read_throws\<close>, \<open>write_throws\<close>: whether \<^verbatim>\<open>getItem\<close> and \<^verbatim>\<open>setItem\<close> throw;
  \<^item> \<open>match_media\<close>: \<open>None\<close> when \<^verbatim>\<open>window.matchMedia\<close> is missing, otherwise the \<^verbatim>\<open>matches\<close> flag of
    the query \<^verbatim>\<open>(prefers-color-scheme: light)\<close>;
  \<^item> \<open>data_theme\<close>: the attribute \<^verbatim>\<open>data-theme\<close> of \<^verbatim>\<open>document.documentElement\<close>;
  \<^item> \<open>theme_icons\<close>, \<open>theme_texts\<close>, \<open>theme_buttons\<close>: the elements selected by \<^verbatim>\<open>#themeIcon\<close>
    (their \<^verbatim>\<open>innerHTML\<close>), \<^verbatim>\<open>#themeText\<close> (their \<^verbatim>\<open>textContent\<close>) and \<^verbatim>\<open>#themeToggleButton\<close>;
  \<^item> \<open>show_toast\<close>: whether \<^verbatim>\<open>typeof showToast === 'function'\<close>; \<open>toasts\<close>: the calls made to it
    (message, kind);
  \<^item> \<open>console\<close>: the warnings logged;
  \<^item> \<open>media_listener\<close>, \<open>click_listener\<close>: whether \<^verbatim>\<open>handleChange\<close> is subscribed to the media query
    and the delegated click handler to the document.
\<close>

record page =
  stored :: "string option"
  read_throws :: bool
  write_throws :: bool
  match_media :: "bool option"
  data_theme :: "string option"
  theme_icons :: "string list"
  theme_texts :: "string list"
  theme_buttons :: "button list"
  show_toast :: bool
  toasts :: "(string \<times> string) list"
  console :: "warning list"
  media_listener :: bool
  click_listener :: bool

text \<open>The object: the page it lives in, and its field \<^verbatim>\<open>currentTheme\<close>.\<close>

record ThemeManager = page +
  currentTheme :: string

subsection \<open>Storage primitives\<close>

definition localStorage_getItem :: "'a page_scheme \<Rightarrow> exn + string option" where
  "localStorage_getItem p = (if read_throws p then Inl StorageError else Inr (stored p))"

definition localStorage_setItem :: "string \<Rightarrow> 'a page_scheme \<Rightarrow> exn + 'a page_scheme" where
  "localStorage_setItem v p =
     (if write_throws p then Inl StorageError else Inr (p\<lparr>stored := Some v\<rparr>))"

text \<open>Truthiness of a string-or-null, and \<^verbatim>\<open>a || b\<close> on it: the empty string and \<^verbatim>\<open>null\<close> are falsy.\<close>

definition truthy :: "string option \<Rightarrow> bool" where
  "truthy v = (case v of None \<Rightarrow> False | Some s \<Rightarrow> s \<noteq> [])"

definition js_or :: "string option \<Rightarrow> string \<Rightarrow> string" where
  "js_or a b = (case a of None \<Rightarrow> b | Some s \<Rightarrow> if s \<noteq> [] then s else b)"

subsection \<open>The script that runs before the page renders (lines 7-31)\<close>

definition getStoredTheme0 :: "'a page_scheme \<Rightarrow> string option" where
  "getStoredTheme0 p = (case localStorage_getItem p of Inl e \<Rightarrow> None | Inr v \<Rightarrow> v)"

definition getSystemTheme :: "'a page_scheme \<Rightarrow> string" where
  "getSystemTheme p =
     (case match_media p of
        None \<Rightarrow> ''dark''
      | Some m \<Rightarrow> if m then ''light'' else ''dark'')"

definition resolveInitialTheme :: "'a page_scheme \<Rightarrow> string" where
  "resolveInitialTheme p = js_or (getStoredTheme0 p) (getSystemTheme p)"

definition early_script :: "page \<Rightarrow> page" where
  "early_script p =
     (let theme = resolveInitialTheme p in
      if theme = ''light'' then p\<lparr>data_theme := Some ''light''\<rparr> else p)"

subsection \<open>Texts written to the controls\<close>

text \<open>
  The labels are Chinese; they are given by their UTF-8 bytes: \<open>txt_night\<close> reads "night",
  \<open>txt_day\<close> "day", \<open>txt_switch_to\<close> "switch to", \<open>txt_mode\<close> "mode" and \<open>txt_switched_to\<close>
  "switched to".
\<close>

definition txt_night :: string where
  "txt_night = [CHR 0xE5, CHR 0xA4, CHR 0x9C, CHR 0xE9, CHR 0x97, CHR 0xB4]"

definition txt_day :: string where
  "txt_day = [CHR 0xE6, CHR 0x97, CHR 0xA5, CHR 0xE9, CHR 0x97, CHR 0xB4]"

definition txt_switch_to :: string where
  "txt_switch_to = [CHR 0xE5, CHR 0x88, CHR 0x87, CHR 0xE6, CHR 0x8D, CHR 0xA2, CHR 0xE5, CHR 0x88, CHR 0xB0]"

definition txt_mode :: string where
  "txt_mode = [CHR 0xE6, CHR 0xA8, CHR 0xA1, CHR 0xE5, CHR 0xBC, CHR 0x8F]"

definition txt_switched_to :: string where
  "txt_switched_to = [CHR 0xE5, CHR 0xB7, CHR 0xB2] @ txt_switch_to"

text \<open>The two template literals assigned to \<^verbatim>\<open>icon.innerHTML\<close>: a moon and a sun.\<close>

definition moon_icon :: string where
  \<open>moon_icon = ''\<newline>                        <path stroke-linecap="round" stroke-linejoin="round" stroke-width="2"\<newline>                            d="M20.354 15.354A9 9 0 018.646 3.646 9.003 9.003 0 0012 21a9.003 9.003 0 008.354-5.646z"></path>\<newline>                    ''\<close>

definition sun_icon :: string where
  \<open>sun_icon = ''\<newline>                        <path stroke-linecap="round" stroke-linejoin="round" stroke-width="2"\<newline>                            d="M12 3v1m0 16v1m9-9h-1M4 12H3m15.364 6.364l-.707-.707M6.343 6.343l-.707-.707m12.728 0l-.707.707M6.343 17.657l-.707.707M16 12a4 4 0 11-8 0 4 4 0 018 0z"></path>\<newline>                    ''\<close>

subsection \<open>The class \<^verbatim>\<open>ThemeManager\<close> (lines 33-224)\<close>

text \<open>
  \<^verbatim>\<open>getStoredTheme\<close>: the value read, \<^verbatim>\<open>null\<close> after a failed read, which is also logged; the
  page is returned with the log.
\<close>

definition getStoredTheme :: "'a page_scheme \<Rightarrow> string option \<times> 'a page_scheme" where
  "getStoredTheme this =
     (case localStorage_getItem this of
        Inr v \<Rightarrow> (v, this)
      | Inl e \<Rightarrow> (None, this\<lparr>console := console this @ [CannotReadPreference e]\<rparr>))"

text \<open>\<^verbatim>\<open>saveTheme\<close>: the write, or the warning when the write throws.\<close>

definition saveTheme :: "string \<Rightarrow> 'a page_scheme \<Rightarrow> 'a page_scheme" where
  "saveTheme theme this =
     (case localStorage_setItem theme this of
        Inr this' \<Rightarrow> this'
      | Inl e \<Rightarrow> this\<lparr>console := console this @ [CannotSavePreference e]\<rparr>)"

text \<open>
  \<^verbatim>\<open>applyTheme\<close>. Every call in the file passes a string, so the argument is one. Any string other
  than \<^verbatim>\<open>light\<close> takes the \<^verbatim>\<open>else\<close> branch.
\<close>

definition applyTheme :: "string \<Rightarrow> ThemeManager \<Rightarrow> ThemeManager" where
  "applyTheme theme this =
     (let this1 = (if theme = ''light''
                   then this\<lparr>data_theme := Some ''light''\<rparr>
                   else this\<lparr>data_theme := None\<rparr>);
          this2 = this1\<lparr>currentTheme := theme\<rparr>
      in saveTheme theme this2)"

text \<open>What \<^verbatim>\<open>updateThemeButton\<close> writes, as functions of \<^verbatim>\<open>isLight\<close>.\<close>

definition icon_markup :: "bool \<Rightarrow> string" where
  "icon_markup isLight = (if isLight then moon_icon else sun_icon)"

definition text_label :: "bool \<Rightarrow> string" where
  "text_label isLight = (if isLight then txt_night else txt_day)"

definition button_label :: "bool \<Rightarrow> string" where
  "button_label isLight = txt_switch_to @ (if isLight then txt_night else txt_day) @ txt_mode"

definition updateThemeButton :: "ThemeManager \<Rightarrow> ThemeManager" where
  "updateThemeButton this =
     (let isLight = (currentTheme this = ''light'') in
      this\<lparr>theme_icons := map (\<lambda>icon. icon_markup isLight) (theme_icons this),
           theme_texts := map (\<lambda>text. text_label isLight) (theme_texts this),
           theme_buttons := map (\<lambda>b. b\<lparr>title := button_label isLight,
                                          aria_label := Some (button_label isLight)\<rparr>)
                                (theme_buttons this)\<rparr>)"

definition toast_message :: "string \<Rightarrow> string" where
  "toast_message newTheme =
     txt_switched_to @ (if newTheme = ''light'' then txt_day else txt_night) @ txt_mode"

definition toggleTheme :: "ThemeManager \<Rightarrow> ThemeManager" where
  "toggleTheme this =
     (let newTheme = (if currentTheme this = ''light'' then ''dark'' else ''light'');
          this1 = updateThemeButton (applyTheme newTheme this)
      in if show_toast this1
         then this1\<lparr>toasts := toasts this1 @ [(toast_message newTheme, ''success'')]\<rparr>
         else this1)"

text \<open>
  The listener of \<^verbatim>\<open>watchSystemTheme\<close>; its argument is \<^verbatim>\<open>e.matches\<close>, the new state of the
  query. The listener does not consult \<^verbatim>\<open>matchMedia\<close> again: the field \<open>match_media\<close> is read by
  \<^verbatim>\<open>getSystemTheme\<close> only, at load.
\<close>

definition handleChange :: "bool \<Rightarrow> ThemeManager \<Rightarrow> ThemeManager" where
  "handleChange e_matches this =
     (case getStoredTheme this of
        (v, this1) \<Rightarrow>
          if \<not> truthy v
          then (let systemTheme = (if e_matches then ''light'' else ''dark'')
                in updateThemeButton (applyTheme systemTheme this1))
          else this1)"

definition watchSystemTheme :: "ThemeManager \<Rightarrow> ThemeManager" where
  "watchSystemTheme this =
     (if match_media this \<noteq> None then this\<lparr>media_listener := True\<rparr> else this)"

definition bindThemeToggleEvents :: "ThemeManager \<Rightarrow> ThemeManager" where
  "bindThemeToggleEvents this = this\<lparr>click_listener := True\<rparr>"

definition init :: "ThemeManager \<Rightarrow> ThemeManager" where
  "init this =
     updateThemeButton (bindThemeToggleEvents (watchSystemTheme
       (applyTheme (currentTheme this) this)))"

text \<open>The constructor, run on a page: \<^verbatim>\<open>new ThemeManager()\<close>.\<close>

definition new_ThemeManager :: "page \<Rightarrow> ThemeManager" where
  "new_ThemeManager p =
     (case getStoredTheme p of
        (v, p1) \<Rightarrow> init (page.extend p1 (ThemeManager.fields (js_or v (getSystemTheme p1)))))"

definition getCurrentTheme :: "ThemeManager \<Rightarrow> string" where
  "getCurrentTheme this = currentTheme this"

text \<open>\<^verbatim>\<open>setTheme\<close>: the strict comparisons succeed only on the two strings.\<close>

definition setTheme :: "jsval \<Rightarrow> ThemeManager \<Rightarrow> ThemeManager" where
  "setTheme theme this =
     (case theme of
        JString s \<Rightarrow>
          if s = ''light'' \<or> s = ''dark''
          then updateThemeButton (applyTheme s this)
          else this
      | _ \<Rightarrow> this)"

subsection \<open>Predicates used in the properties\<close>

text \<open>
  The test of the listener: a preference counts as stored when the read succeeds with a non-empty
  string.
\<close>

definition preference_stored :: "'a page_scheme \<Rightarrow> bool" where
  "preference_stored this = truthy (fst (getStoredTheme this))"

text \<open>
  The marker attribute follows the current theme as \<^verbatim>\<open>applyTheme\<close> writes it: present with value
  \<^verbatim>\<open>light\<close> exactly for \<^verbatim>\<open>light\<close>, absent for every other value of the field.
\<close>

definition marker_matches :: "ThemeManager \<Rightarrow> bool" where
  "marker_matches this \<longleftrightarrow>
     (data_theme this = Some ''light'') = (currentTheme this = ''light'') \<and>
     (data_theme this = None) = (currentTheme this \<noteq> ''light'')"

text \<open>
  The marker attribute reflects the current theme: present with value \<^verbatim>\<open>light\<close> exactly for
  \<^verbatim>\<open>light\<close>, absent exactly for \<^verbatim>\<open>dark\<close>.
\<close>

definition marker_reflects :: "ThemeManager \<Rightarrow> bool" where
  "marker_reflects this \<longleftrightarrow>
     (data_theme this = Some ''light'') = (currentTheme this = ''light'') \<and>
     (data_theme this = None) = (currentTheme this = ''dark'')"

text \<open>Every control shows the icon, text and labels of theme \<open>t\<close>.\<close>

definition controls_show :: "string \<Rightarrow> 'a page_scheme \<Rightarrow> bool" where
  "controls_show t this \<longleftrightarrow>
     list_all (\<lambda>icon. icon = icon_markup (t = ''light'')) (theme_icons this) \<and>
     list_all (\<lambda>text. text = text_label (t = ''light'')) (theme_texts this) \<and>
     list_all (\<lambda>b. title b = button_label (t = ''light'') \<and>
                    aria_label b = Some (button_label (t = ''light''))) (theme_buttons this)"

definition controls_synced :: "ThemeManager \<Rightarrow> bool" where
  "controls_synced this = controls_show (currentTheme this) this"

text \<open>
  The states a manager can be in. It is built by the constructor on some page. Then any of its
  methods may be called, from the page's own handlers (a click on a toggle control, a system
  notification) or directly, since every method is public; and between two calls the rest of the
  page may change in any way (the storage entry removed or replaced, storage starting to fail,
  controls added, removed or relabelled, the notification function defined). Only the field
  \<^verbatim>\<open>currentTheme\<close> and the attribute \<^verbatim>\<open>data-theme\<close> are written by nobody but the manager. The
  methods without a rule of their own (\<^verbatim>\<open>saveTheme\<close>, \<^verbatim>\<open>getStoredTheme\<close>, \<^verbatim>\<open>watchSystemTheme\<close>,
  \<^verbatim>\<open>bindThemeToggleEvents\<close>) write neither of the two, so a call of one is a change of the last
  kind, and \<^verbatim>\<open>init\<close> is a sequence of the others.
\<close>

inductive reachable :: "ThemeManager \<Rightarrow> bool" where
  constructed: "reachable (new_ThemeManager p)"
| applied: "reachable this \<Longrightarrow> reachable (applyTheme t this)"
| refreshed: "reachable this \<Longrightarrow> reachable (updateThemeButton this)"
| toggled: "reachable this \<Longrightarrow> reachable (toggleTheme this)"
| set_to: "reachable this \<Longrightarrow> reachable (setTheme v this)"
| notified: "reachable this \<Longrightarrow> reachable (handleChange e this)"
| outside: "reachable this \<Longrightarrow> data_theme that = data_theme this \<Longrightarrow>
            currentTheme that = currentTheme this \<Longrightarrow> reachable that"

text \<open>A run of system notifications, oldest first.\<close>

fun notifications :: "bool list \<Rightarrow> ThemeManager \<Rightarrow> ThemeManager" where
  "notifications [] this = this"
| "notifications (e # es) this = notifications es (handleChange e this)"

text \<open>Concrete pages used in the examples below.\<close>

definition fresh_page :: page where
  "fresh_page = \<lparr>stored = None, read_throws = False, write_throws = False,
     match_media = Some True, data_theme = None,
     theme_icons = [''''], theme_texts = [''Theme''],
     theme_buttons = [\<lparr>title = ''Theme'', aria_label = None\<rparr>],
     show_toast = True, toasts = [], console = [],
     media_listener = False, click_listener = False\<rparr>"

definition corrupt_page :: page where
  "corrupt_page = fresh_page\<lparr>stored := Some ''blue''\<rparr>"

definition dark_stored_page :: page where
  "dark_stored_page = fresh_page\<lparr>stored := Some ''dark''\<rparr>"

text \<open>A page whose storage refuses every write (a full quota, a private window).\<close>

definition readonly_page :: page where
  "readonly_page = fresh_page\<lparr>write_throws := True\<rparr>"

text \<open>A manager whose storage entry was removed from outside after construction.\<close>

definition cleared_manager :: ThemeManager where
  "cleared_manager = (new_ThemeManager fresh_page)\<lparr>stored := None\<rparr>"

text \<open>A manager on which \<^verbatim>\<open>applyTheme('dark')\<close> was called directly after construction.\<close>

definition unsynced_manager :: ThemeManager where
  "unsynced_manager = applyTheme ''dark'' (new_ThemeManager fresh_page)"

section \<open>Basic facts about the methods\<close>

lemmas storage_defs = localStorage_getItem_def localStorage_setItem_def getStoredTheme0_def
  getStoredTheme_def saveTheme_def truthy_def js_or_def getSystemTheme_def

lemmas method_defs = applyTheme_def updateThemeButton_def toggleTheme_def handleChange_def
  watchSystemTheme_def bindThemeToggleEvents_def init_def new_ThemeManager_def setTheme_def
  getCurrentTheme_def resolveInitialTheme_def early_script_def

lemmas example_defs = fresh_page_def corrupt_page_def dark_stored_page_def readonly_page_def
  cleared_manager_def page.defs ThemeManager.defs

lemma getStoredTheme_value: "fst (getStoredTheme p) = getStoredTheme0 p"
  by (simp add: storage_defs)

lemma preference_stored_iff:
  "preference_stored p \<longleftrightarrow> \<not> read_throws p \<and> (\<exists>v. stored p = Some v \<and> v \<noteq> [])"
  by (auto simp add: preference_stored_def storage_defs split: option.splits)

lemma currentTheme_constructed: "currentTheme (new_ThemeManager p) = resolveInitialTheme p"
  by (simp add: method_defs storage_defs Let_def page.defs ThemeManager.defs split: option.splits)

lemma applyTheme_currentTheme: "currentTheme (applyTheme t this) = t"
  by (simp add: applyTheme_def saveTheme_def localStorage_setItem_def Let_def)

lemma applyTheme_data_theme:
  "data_theme (applyTheme t this) = (if t = ''light'' then Some ''light'' else None)"
  by (simp add: applyTheme_def saveTheme_def localStorage_setItem_def Let_def)

lemma applyTheme_stored:
  "stored (applyTheme t this) = (if write_throws this then stored this else Some t)"
  by (simp add: applyTheme_def saveTheme_def localStorage_setItem_def Let_def)

lemma applyTheme_frame:
  "read_throws (applyTheme t this) = read_throws this"
  "write_throws (applyTheme t this) = write_throws this"
  "toasts (applyTheme t this) = toasts this"
  "theme_icons (applyTheme t this) = theme_icons this"
  "theme_texts (applyTheme t this) = theme_texts this"
  "theme_buttons (applyTheme t this) = theme_buttons this"
  by (simp_all add: applyTheme_def saveTheme_def localStorage_setItem_def Let_def)

lemma updateThemeButton_frame:
  "currentTheme (updateThemeButton this) = currentTheme this"
  "data_theme (updateThemeButton this) = data_theme this"
  "stored (updateThemeButton this) = stored this"
  "toasts (updateThemeButton this) = toasts this"
  "read_throws (updateThemeButton this) = read_throws this"
  "write_throws (updateThemeButton this) = write_throws this"
  by (simp_all add: updateThemeButton_def Let_def)

lemma marker_reflects_applyTheme:
  "t = ''light'' \<or> t = ''dark'' \<Longrightarrow> marker_reflects (updateThemeButton (applyTheme t this))"
  "t = ''light'' \<or> t = ''dark'' \<Longrightarrow> marker_reflects (applyTheme t this)"
  by (auto simp add: marker_reflects_def updateThemeButton_frame applyTheme_currentTheme
      applyTheme_data_theme)

lemma controls_synced_updateThemeButton: "controls_synced (updateThemeButton this)"
  by (simp add: controls_synced_def controls_show_def updateThemeButton_def Let_def list_all_iff)

lemma toggleTheme_currentTheme:
  "currentTheme (toggleTheme this) = (if currentTheme this = ''light'' then ''dark'' else ''light'')"
  by (simp add: toggleTheme_def Let_def updateThemeButton_frame applyTheme_currentTheme)

lemma toggleTheme_controls:
  "theme_icons (toggleTheme this) =
     map (\<lambda>icon. icon_markup (currentTheme this \<noteq> ''light'')) (theme_icons this)"
  "theme_texts (toggleTheme this) =
     map (\<lambda>text. text_label (currentTheme this \<noteq> ''light'')) (theme_texts this)"
  "theme_buttons (toggleTheme this) =
     map (\<lambda>b. b\<lparr>title := button_label (currentTheme this \<noteq> ''light''),
                   aria_label := Some (button_label (currentTheme this \<noteq> ''light''))\<rparr>)
         (theme_buttons this)"
  by (simp_all add: toggleTheme_def updateThemeButton_def Let_def applyTheme_currentTheme
      applyTheme_frame)

lemma controls_synced_toggleTheme: "controls_synced (toggleTheme this)"
  by (simp add: controls_synced_def controls_show_def toggleTheme_currentTheme
      toggleTheme_controls list_all_iff)

lemma handleChange_kept: "preference_stored this \<Longrightarrow> handleChange e this = this"
  by (auto simp add: preference_stored_def handleChange_def storage_defs split: if_splits)

lemma handleChange_followed:
  "\<not> preference_stored this \<Longrightarrow>
   handleChange e this =
     updateThemeButton (applyTheme (if e then ''light'' else ''dark'') (snd (getStoredTheme this)))"
  by (auto simp add: preference_stored_def handleChange_def Let_def split: prod.splits)

lemma getStoredTheme_frame:
  "stored (snd (getStoredTheme p)) = stored p"
  "read_throws (snd (getStoredTheme p)) = read_throws p"
  "write_throws (snd (getStoredTheme p)) = write_throws p"
  "toasts (snd (getStoredTheme p)) = toasts p"
  by (simp_all add: getStoredTheme_def localStorage_getItem_def)

lemma setTheme_valid:
  "t = ''light'' \<or> t = ''dark'' \<Longrightarrow> setTheme (JString t) this = updateThemeButton (applyTheme t this)"
  by (auto simp add: setTheme_def)

lemma setTheme_invalid:
  "v \<noteq> JString ''light'' \<Longrightarrow> v \<noteq> JString ''dark'' \<Longrightarrow> setTheme v this = this"
  by (cases v) (simp_all add: setTheme_def)

lemma controls_synced_constructed: "controls_synced (new_ThemeManager p)"
  by (simp add: new_ThemeManager_def init_def controls_synced_updateThemeButton
      split: prod.splits)

lemma controls_synced_setTheme: "controls_synced this \<Longrightarrow> controls_synced (setTheme v this)"
  by (cases "v = JString ''light'' \<or> v = JString ''dark''")
     (auto simp add: setTheme_valid setTheme_invalid controls_synced_updateThemeButton)

lemma controls_synced_handleChange:
  "controls_synced this \<Longrightarrow> controls_synced (handleChange e this)"
  by (cases "preference_stored this")
     (simp_all add: handleChange_kept handleChange_followed controls_synced_updateThemeButton)

lemma map_const_same: "map (\<lambda>x. c) xs = xs \<longleftrightarrow> list_all (\<lambda>x. x = c) xs"
  by (induction xs) auto

lemma button_same:
  "b\<lparr>title := c, aria_label := Some c\<rparr> = b \<longleftrightarrow> title b = c \<and> aria_label b = Some c"
proof
  assume same: "b\<lparr>title := c, aria_label := Some c\<rparr> = b"
  have "title (b\<lparr>title := c, aria_label := Some c\<rparr>) = c"
    and "aria_label (b\<lparr>title := c, aria_label := Some c\<rparr>) = Some c"
    by simp_all
  with same show "title b = c \<and> aria_label b = Some c"
    by simp
next
  assume "title b = c \<and> aria_label b = Some c"
  then show "b\<lparr>title := c, aria_label := Some c\<rparr> = b"
    by simp
qed

lemma map_button_same:
  "map (\<lambda>b. b\<lparr>title := c, aria_label := Some c\<rparr>) bs = bs \<longleftrightarrow>
   list_all (\<lambda>b. title b = c \<and> aria_label b = Some c) bs"
  by (induction bs) (simp_all add: button_same)

lemma notifications_kept: "preference_stored this \<Longrightarrow> notifications es this = this"
  by (induction es) (simp_all add: handleChange_kept)

text \<open>What a refresh after \<^verbatim>\<open>applyTheme\<close> leaves in the controls: one entry per control, each
  with the markup and labels of the theme applied.\<close>

lemma refreshed_controls:
  "theme_icons (updateThemeButton (applyTheme t this)) =
     map (\<lambda>icon. icon_markup (t = ''light'')) (theme_icons this)"
  "theme_texts (updateThemeButton (applyTheme t this)) =
     map (\<lambda>text. text_label (t = ''light'')) (theme_texts this)"
  "theme_buttons (updateThemeButton (applyTheme t this)) =
     map (\<lambda>b. b\<lparr>title := button_label (t = ''light''),
                   aria_label := Some (button_label (t = ''light''))\<rparr>)
         (theme_buttons this)"
  by (simp_all add: updateThemeButton_def Let_def applyTheme_currentTheme applyTheme_frame)

lemma getStoredTheme_controls:
  "theme_icons (snd (getStoredTheme p)) = theme_icons p"
  "theme_texts (snd (getStoredTheme p)) = theme_texts p"
  "theme_buttons (snd (getStoredTheme p)) = theme_buttons p"
  by (simp_all add: getStoredTheme_def localStorage_getItem_def)

lemma handleChange_controls:
  assumes "\<not> preference_stored this"
  shows "theme_icons (handleChange e this) = map (\<lambda>icon. icon_markup e) (theme_icons this)"
    and "theme_texts (handleChange e this) = map (\<lambda>text. text_label e) (theme_texts this)"
    and "theme_buttons (handleChange e this) =
      map (\<lambda>b. b\<lparr>title := button_label e, aria_label := Some (button_label e)\<rparr>)
          (theme_buttons this)"
  using assms
  by (cases e; simp add: handleChange_followed refreshed_controls getStoredTheme_controls)+

text \<open>The constructor subscribes the listener when \<^verbatim>\<open>matchMedia\<close> exists, and binds the clicks.\<close>

lemma constructor_subscribes:
  fixes p :: page
  shows "media_listener (new_ThemeManager p) \<longleftrightarrow> media_listener p \<or> match_media p \<noteq> None"
    and "click_listener (new_ThemeManager p)"
  by (auto simp add: method_defs storage_defs Let_def page.defs ThemeManager.defs
      split: option.splits)

lemma data_theme_constructed:
  "data_theme (new_ThemeManager p) =
     (if resolveInitialTheme p = ''light'' then Some ''light'' else None)"
  by (simp add: method_defs storage_defs Let_def page.defs ThemeManager.defs split: option.splits)

text \<open>The marker follows the field in every state a manager can be in.\<close>

lemma marker_matches_applyTheme:
  "marker_matches (applyTheme t this)"
  "marker_matches (updateThemeButton (applyTheme t this))"
  by (simp_all add: marker_matches_def updateThemeButton_frame applyTheme_currentTheme
      applyTheme_data_theme)

lemma marker_matches_updateThemeButton:
  "marker_matches this \<Longrightarrow> marker_matches (updateThemeButton this)"
  by (simp add: marker_matches_def updateThemeButton_frame)

lemma marker_matches_toggleTheme: "marker_matches (toggleTheme this)"
  by (simp add: marker_matches_def toggleTheme_def Let_def updateThemeButton_frame
      applyTheme_currentTheme applyTheme_data_theme)

lemma marker_matches_setTheme: "marker_matches this \<Longrightarrow> marker_matches (setTheme v this)"
  by (cases "v = JString ''light'' \<or> v = JString ''dark''")
     (auto simp add: setTheme_valid setTheme_invalid marker_matches_applyTheme)

lemma marker_matches_handleChange:
  "marker_matches this \<Longrightarrow> marker_matches (handleChange e this)"
  by (cases "preference_stored this")
     (simp_all add: handleChange_kept handleChange_followed marker_matches_applyTheme)

lemma marker_matches_constructed: "marker_matches (new_ThemeManager p)"
  by (simp add: marker_matches_def currentTheme_constructed data_theme_constructed)

lemma reachable_marker_matches: "reachable this \<Longrightarrow> marker_matches this"
proof (induction rule: reachable.induct)
  case (constructed p)
  show ?case by (rule marker_matches_constructed)
next
  case (applied this t)
  show ?case by (rule marker_matches_applyTheme)
next
  case (refreshed this)
  then show ?case by (simp add: marker_matches_updateThemeButton)
next
  case (toggled this)
  show ?case by (rule marker_matches_toggleTheme)
next
  case (set_to this v)
  then show ?case by (simp add: marker_matches_setTheme)
next
  case (notified this e)
  then show ?case by (simp add: marker_matches_handleChange)
next
  case (outside this that)
  then show ?case by (simp add: marker_matches_def)
qed

lemma reachable_other_methods:
  assumes "reachable this"
  shows "reachable (saveTheme t this)"
    and "reachable (snd (getStoredTheme this))"
    and "reachable (watchSystemTheme this)"
    and "reachable (bindThemeToggleEvents this)"
    and "reachable (init this)"
proof -
  show "reachable (saveTheme t this)"
    by (rule reachable.outside [OF assms])
       (simp_all add: saveTheme_def localStorage_setItem_def)
  show "reachable (snd (getStoredTheme this))"
    by (rule reachable.outside [OF assms])
       (simp_all add: getStoredTheme_def localStorage_getItem_def)
  show "reachable (watchSystemTheme this)"
    by (rule reachable.outside [OF assms]) (simp_all add: watchSystemTheme_def)
  show "reachable (bindThemeToggleEvents this)"
    by (rule reachable.outside [OF assms]) (simp_all add: bindThemeToggleEvents_def)
  have "reachable (applyTheme (currentTheme this) this)"
    using assms by (rule reachable.applied)
  then have "reachable (bindThemeToggleEvents (watchSystemTheme
      (applyTheme (currentTheme this) this)))"
    by (rule reachable.outside)
       (simp_all add: watchSystemTheme_def bindThemeToggleEvents_def)
  then show "reachable (init this)"
    unfolding init_def by (rule reachable.refreshed)
qed

lemma marker_matches_theme:
  "marker_matches this \<Longrightarrow> currentTheme this = ''light'' \<or> currentTheme this = ''dark'' \<Longrightarrow>
   marker_reflects this"
  by (auto simp add: marker_matches_def marker_reflects_def)

section \<open>Initial resolution\<close>

text \<open>
  C1 (as stated): every stored value outside \<^verbatim>\<open>light\<close>/\<^verbatim>\<open>dark\<close> is ignored by initial resolution,
  which then falls back to the system theme. This fails: with \<^verbatim>\<open>blue\<close> stored and a system that
  prefers light, both the early script and the constructor resolve to \<^verbatim>\<open>blue\<close>, the early script
  sets no marker, and the constructed manager holds \<^verbatim>\<open>blue\<close> with the marker absent.
\<close>

theorem invalid_stored_value_is_used:
  "getStoredTheme0 corrupt_page \<noteq> Some ''light'' \<and>
   getStoredTheme0 corrupt_page \<noteq> Some ''dark'' \<and>
   getSystemTheme corrupt_page = ''light'' \<and>
   resolveInitialTheme corrupt_page = ''blue'' \<and>
   resolveInitialTheme corrupt_page \<noteq> getSystemTheme corrupt_page \<and>
   data_theme (early_script corrupt_page) = None \<and>
   currentTheme (new_ThemeManager corrupt_page) = ''blue'' \<and>
   data_theme (new_ThemeManager corrupt_page) = None"
  by (simp add: method_defs storage_defs example_defs Let_def)

text \<open>
  C1 (amended): initial resolution falls back to the system theme when the stored value is absent,
  unreadable or the empty string; every non-empty stored string, valid or not, is taken as the
  theme as it is, in the early script and in the constructor alike, and the early script sets the
  marker only when the resolved value is \<^verbatim>\<open>light\<close>.
\<close>

theorem initial_resolution_fallback:
  fixes p :: page
  shows "(getStoredTheme0 p = None \<or> getStoredTheme0 p = Some [] \<longrightarrow>
            resolveInitialTheme p = getSystemTheme p \<and>
            currentTheme (new_ThemeManager p) = getSystemTheme p) \<and>
         (\<forall>v. getStoredTheme0 p = Some v \<and> v \<noteq> [] \<longrightarrow>
            resolveInitialTheme p = v \<and> currentTheme (new_ThemeManager p) = v) \<and>
         early_script p =
           (if resolveInitialTheme p = ''light'' then p\<lparr>data_theme := Some ''light''\<rparr> else p)"
  by (auto simp add: currentTheme_constructed resolveInitialTheme_def js_or_def early_script_def)

theorem initial_resolution_fallback_witness:
  "getStoredTheme0 fresh_page = None \<and>
   resolveInitialTheme fresh_page = getSystemTheme fresh_page \<and>
   getStoredTheme0 corrupt_page = Some ''blue'' \<and> ''blue'' \<noteq> [] \<and>
   currentTheme (new_ThemeManager corrupt_page) = ''blue'' \<and>
   data_theme (early_script fresh_page) = Some ''light''"
proof -
  have absent: "getStoredTheme0 fresh_page = None"
    by (simp add: storage_defs example_defs)
  have present: "getStoredTheme0 corrupt_page = Some ''blue''"
    by (simp add: storage_defs example_defs)
  have light: "resolveInitialTheme fresh_page = ''light''"
    by (simp add: resolveInitialTheme_def storage_defs example_defs)
  show ?thesis
    using initial_resolution_fallback [of fresh_page] initial_resolution_fallback [of corrupt_page]
      absent present light
    by simp
qed

text \<open>
  C7: initial resolution returns the stored preference when one is present, whatever the system
  reports; when none can be read it returns \<^verbatim>\<open>light\<close> if the colour-scheme query matches and
  \<^verbatim>\<open>dark\<close> if it does not match or \<^verbatim>\<open>matchMedia\<close> is missing. The constructor resolves in the
  same way.
\<close>

theorem stored_preference_wins:
  fixes p :: page
  shows "(\<forall>t. (t = ''light'' \<or> t = ''dark'') \<and> getStoredTheme0 p = Some t \<longrightarrow>
            resolveInitialTheme p = t \<and> getCurrentTheme (new_ThemeManager p) = t) \<and>
         (getStoredTheme0 p = None \<longrightarrow>
            resolveInitialTheme p = (if match_media p = Some True then ''light'' else ''dark'') \<and>
            getCurrentTheme (new_ThemeManager p) = resolveInitialTheme p)"
  by (auto simp add: getCurrentTheme_def currentTheme_constructed resolveInitialTheme_def
      js_or_def getSystemTheme_def split: option.splits)

theorem stored_preference_wins_witness:
  "getStoredTheme0 dark_stored_page = Some ''dark'' \<and>
   getSystemTheme dark_stored_page = ''light'' \<and>
   resolveInitialTheme dark_stored_page = ''dark'' \<and>
   getCurrentTheme (new_ThemeManager dark_stored_page) = ''dark'' \<and>
   getStoredTheme0 fresh_page = None \<and>
   match_media fresh_page = Some True \<and>
   resolveInitialTheme fresh_page = ''light''"
proof -
  have present: "getStoredTheme0 dark_stored_page = Some ''dark''"
    and system: "getSystemTheme dark_stored_page = ''light''"
    and absent: "getStoredTheme0 fresh_page = None"
    and query: "match_media fresh_page = Some True"
    by (simp_all add: storage_defs example_defs)
  show ?thesis
    using stored_preference_wins [of dark_stored_page] stored_preference_wins [of fresh_page]
      present system absent query
    by simp
qed

section \<open>Who writes the stored preference\<close>

text \<open>
  C2 says that only an explicit toggle or \<^verbatim>\<open>setTheme\<close> writes the stored preference, and that
  neither the initial load nor the system-theme listener does. The code writes in both: on a page
  with empty, working storage and a system that prefers light the constructor stores \<^verbatim>\<open>light\<close>,
  and the listener, fired on a manager whose entry is missing, stores the system theme it follows.
\<close>

theorem load_and_listener_write_store:
  "stored fresh_page = None \<and>
   stored (new_ThemeManager fresh_page) = Some ''light'' \<and>
   stored cleared_manager = None \<and>
   stored (handleChange False cleared_manager) = Some ''dark''"
  by (simp add: method_defs storage_defs example_defs Let_def)

section \<open>The marker attribute\<close>

text \<open>
  C3 (as stated): after any mutating operation completes, the marker is present with value
  \<^verbatim>\<open>light\<close> exactly when the current theme is \<^verbatim>\<open>light\<close> and absent exactly when it is \<^verbatim>\<open>dark\<close>.
  This fails once a stored value other than the two themes has been loaded: the constructor's
  own \<^verbatim>\<open>applyTheme('blue')\<close> leaves the marker absent while the current theme is \<^verbatim>\<open>blue\<close>, not
  \<^verbatim>\<open>dark\<close>, and that is still so after the listener or \<^verbatim>\<open>setTheme\<close> has run and changed nothing;
  a direct \<^verbatim>\<open>applyTheme('blue')\<close> on a sound manager does the same.
\<close>

theorem marker_absent_for_other_theme:
  "getCurrentTheme (new_ThemeManager corrupt_page) = ''blue'' \<and>
   data_theme (new_ThemeManager corrupt_page) = None \<and>
   \<not> marker_reflects (new_ThemeManager corrupt_page) \<and>
   \<not> marker_reflects (handleChange True (new_ThemeManager corrupt_page)) \<and>
   \<not> marker_reflects (setTheme JNull (new_ThemeManager corrupt_page)) \<and>
   \<not> marker_reflects (applyTheme ''blue'' (new_ThemeManager fresh_page))"
proof -
  let ?m = "new_ThemeManager corrupt_page"
  have resolved: "resolveInitialTheme corrupt_page = ''blue''"
    by (simp add: resolveInitialTheme_def storage_defs example_defs)
  then have theme: "currentTheme ?m = ''blue''" and marker: "data_theme ?m = None"
    by (simp_all add: currentTheme_constructed data_theme_constructed)
  then have broken: "\<not> marker_reflects ?m"
    by (simp add: marker_reflects_def)
  have "stored ?m = Some ''blue''" and "\<not> read_throws ?m"
    by (simp_all add: example_defs method_defs storage_defs Let_def)
  then have "preference_stored ?m"
    by (simp add: preference_stored_iff)
  then have kept: "handleChange True ?m = ?m"
    by (rule handleChange_kept)
  have ignored: "setTheme JNull ?m = ?m"
    by (simp add: setTheme_invalid)
  have direct: "\<not> marker_reflects (applyTheme ''blue'' (new_ThemeManager fresh_page))"
    by (simp add: marker_reflects_def applyTheme_currentTheme applyTheme_data_theme)
  from theme marker broken kept ignored direct show ?thesis
    by (simp add: getCurrentTheme_def)
qed

text \<open>
  C3 (amended): after any mutating operation completes (\<^verbatim>\<open>applyTheme\<close>, \<^verbatim>\<open>toggleTheme\<close>,
  \<^verbatim>\<open>setTheme\<close>, the system-theme-change listener), the marker is present with value \<^verbatim>\<open>light\<close>
  exactly when the current theme is \<^verbatim>\<open>light\<close> and absent exactly when it is anything else. It is
  therefore absent exactly when the current theme is \<^verbatim>\<open>dark\<close> whenever the current theme is one of
  the two themes: after \<^verbatim>\<open>applyTheme\<close> or \<^verbatim>\<open>setTheme\<close> with a theme, after every \<^verbatim>\<open>toggleTheme\<close>,
  after the listener follows the system, and after a \<^verbatim>\<open>setTheme\<close> or a notification that changes
  nothing in a state whose theme is one of the two.
\<close>

theorem marker_follows_theme:
  "marker_matches (applyTheme t this) \<and>
   marker_matches (toggleTheme this) \<and>
   (t = ''light'' \<or> t = ''dark'' \<longrightarrow>
      marker_reflects (applyTheme t this) \<and> marker_reflects (setTheme (JString t) this)) \<and>
   marker_reflects (toggleTheme this) \<and>
   (\<not> preference_stored this \<longrightarrow> marker_reflects (handleChange e this)) \<and>
   (reachable this \<longrightarrow>
      marker_matches this \<and>
      marker_matches (setTheme v this) \<and>
      marker_matches (handleChange e this) \<and>
      (currentTheme this = ''light'' \<or> currentTheme this = ''dark'' \<longrightarrow>
         marker_reflects (setTheme v this) \<and> marker_reflects (handleChange e this)))"
proof -
  have applied: "marker_matches (applyTheme t this)"
    by (rule marker_matches_applyTheme)
  have toggled: "marker_matches (toggleTheme this)"
    by (rule marker_matches_toggleTheme)
  have themed: "marker_reflects (applyTheme t this) \<and> marker_reflects (setTheme (JString t) this)"
    if "t = ''light'' \<or> t = ''dark''"
    using that by (simp add: setTheme_valid marker_reflects_applyTheme)
  have toggled_theme: "marker_reflects (toggleTheme this)"
    by (rule marker_matches_theme [OF marker_matches_toggleTheme])
       (simp add: toggleTheme_currentTheme)
  have followed: "marker_reflects (handleChange e this)" if "\<not> preference_stored this"
    using that by (simp add: handleChange_followed marker_reflects_applyTheme)
  have running:
    "marker_matches this \<and> marker_matches (setTheme v this) \<and>
     marker_matches (handleChange e this) \<and>
     (currentTheme this = ''light'' \<or> currentTheme this = ''dark'' \<longrightarrow>
        marker_reflects (setTheme v this) \<and> marker_reflects (handleChange e this))"
    if "reachable this"
  proof -
    from that have inv: "marker_matches this"
      by (rule reachable_marker_matches)
    have set_theme: "marker_reflects (setTheme v this)"
      if theme: "currentTheme this = ''light'' \<or> currentTheme this = ''dark''"
    proof (cases "v = JString ''light'' \<or> v = JString ''dark''")
      case True
      then show ?thesis by (auto simp add: setTheme_valid marker_reflects_applyTheme)
    next
      case False
      with inv theme show ?thesis by (simp add: setTheme_invalid marker_matches_theme)
    qed
    have notified: "marker_reflects (handleChange e this)"
      if theme: "currentTheme this = ''light'' \<or> currentTheme this = ''dark''"
    proof (cases "preference_stored this")
      case True
      with inv theme show ?thesis by (simp add: handleChange_kept marker_matches_theme)
    next
      case False
      then show ?thesis by (rule followed)
    qed
    from inv set_theme notified show ?thesis
      by (simp add: marker_matches_setTheme marker_matches_handleChange)
  qed
  from applied toggled themed toggled_theme followed running show ?thesis
    by blast
qed

theorem marker_follows_theme_witness:
  "reachable cleared_manager \<and> \<not> preference_stored cleared_manager \<and>
   currentTheme cleared_manager = ''light'' \<and> data_theme cleared_manager = Some ''light'' \<and>
   marker_reflects (applyTheme ''dark'' cleared_manager) \<and>
   data_theme (applyTheme ''dark'' cleared_manager) = None \<and>
   marker_reflects (setTheme (JString ''dark'') cleared_manager) \<and>
   marker_reflects (toggleTheme cleared_manager) \<and>
   marker_reflects (handleChange False cleared_manager) \<and>
   marker_reflects (setTheme JNull cleared_manager) \<and>
   reachable (new_ThemeManager corrupt_page) \<and>
   marker_matches (handleChange True (new_ThemeManager corrupt_page)) \<and>
   marker_matches (applyTheme ''blue'' cleared_manager) \<and>
   data_theme (applyTheme ''blue'' cleared_manager) = None"
proof -
  have start: "currentTheme cleared_manager = ''light''"
    "data_theme cleared_manager = Some ''light''"
    by (simp_all add: example_defs method_defs storage_defs Let_def)
  have built: "reachable (new_ThemeManager fresh_page)"
    and corrupt: "reachable (new_ThemeManager corrupt_page)"
    by (rule reachable.constructed)+
  have running: "reachable cleared_manager"
    by (rule reachable.outside [OF built]) (simp_all add: cleared_manager_def)
  have absent: "\<not> preference_stored cleared_manager"
    by (simp add: preference_stored_iff example_defs method_defs storage_defs Let_def)
  have theme: "''dark'' = ''light'' \<or> ''dark'' = ''dark''"
    by simp
  from marker_follows_theme [of "''dark''" cleared_manager False JNull] theme absent running start
  have first: "marker_reflects (applyTheme ''dark'' cleared_manager)"
    "marker_reflects (setTheme (JString ''dark'') cleared_manager)"
    "marker_reflects (toggleTheme cleared_manager)"
    "marker_reflects (handleChange False cleared_manager)"
    "marker_reflects (setTheme JNull cleared_manager)"
    by blast+
  from marker_follows_theme [of "''blue''" "new_ThemeManager corrupt_page" True JNull] corrupt
  have second: "marker_matches (handleChange True (new_ThemeManager corrupt_page))"
    by blast
  from marker_follows_theme [of "''blue''" cleared_manager True JNull]
  have third: "marker_matches (applyTheme ''blue'' cleared_manager)"
    by blast
  from start running absent corrupt first second third show ?thesis
    by (simp add: applyTheme_data_theme)
qed

section \<open>System notifications\<close>

text \<open>
  C4: when a system-theme-change notification fires and a preference is stored (the read returns a
  non-empty string), the listener changes nothing; when none is stored (no entry, an empty
  entry or a failed read), the current theme becomes the new system theme, the marker follows and
  the controls are re-synced: every icon, text and button that was in the document is still
  there and now carries the markup and labels of the new theme.
\<close>

theorem system_change_respects_preference:
  "(preference_stored this \<longleftrightarrow> \<not> read_throws this \<and> (\<exists>v. stored this = Some v \<and> v \<noteq> [])) \<and>
   (preference_stored this \<longrightarrow> handleChange e this = this) \<and>
   (\<not> preference_stored this \<longrightarrow>
      getCurrentTheme (handleChange e this) = (if e then ''light'' else ''dark'') \<and>
      data_theme (handleChange e this) = (if e then Some ''light'' else None) \<and>
      theme_icons (handleChange e this) =
        map (\<lambda>icon. if e then moon_icon else sun_icon) (theme_icons this) \<and>
      theme_texts (handleChange e this) =
        map (\<lambda>text. if e then txt_night else txt_day) (theme_texts this) \<and>
      theme_buttons (handleChange e this) =
        map (\<lambda>b. b\<lparr>title := txt_switch_to @ (if e then txt_night else txt_day) @ txt_mode,
                      aria_label :=
                        Some (txt_switch_to @ (if e then txt_night else txt_day) @ txt_mode)\<rparr>)
            (theme_buttons this) \<and>
      controls_synced (handleChange e this))"
proof -
  have kept: "handleChange e this = this" if "preference_stored this"
    using that by (rule handleChange_kept)
  have followed:
    "getCurrentTheme (handleChange e this) = (if e then ''light'' else ''dark'') \<and>
     data_theme (handleChange e this) = (if e then Some ''light'' else None) \<and>
     controls_synced (handleChange e this)"
    if "\<not> preference_stored this"
    using that
    by (simp add: handleChange_followed getCurrentTheme_def updateThemeButton_frame
        applyTheme_currentTheme applyTheme_data_theme controls_synced_updateThemeButton)
  have controls:
    "theme_icons (handleChange e this) =
       map (\<lambda>icon. if e then moon_icon else sun_icon) (theme_icons this) \<and>
     theme_texts (handleChange e this) =
       map (\<lambda>text. if e then txt_night else txt_day) (theme_texts this) \<and>
     theme_buttons (handleChange e this) =
       map (\<lambda>b. b\<lparr>title := txt_switch_to @ (if e then txt_night else txt_day) @ txt_mode,
                     aria_label :=
                       Some (txt_switch_to @ (if e then txt_night else txt_day) @ txt_mode)\<rparr>)
           (theme_buttons this)"
    if "\<not> preference_stored this"
    using handleChange_controls [OF that, of e]
    by (simp add: icon_markup_def text_label_def button_label_def)
  from kept followed controls preference_stored_iff [of this] show ?thesis by blast
qed

theorem system_change_respects_preference_witness:
  "preference_stored (new_ThemeManager dark_stored_page) \<and>
   handleChange True (new_ThemeManager dark_stored_page) = new_ThemeManager dark_stored_page \<and>
   getCurrentTheme (new_ThemeManager dark_stored_page) = ''dark'' \<and>
   \<not> preference_stored cleared_manager \<and>
   getCurrentTheme cleared_manager = ''light'' \<and>
   theme_texts cleared_manager = [txt_night] \<and>
   getCurrentTheme (handleChange False cleared_manager) = ''dark'' \<and>
   data_theme (handleChange False cleared_manager) = None \<and>
   theme_icons (handleChange False cleared_manager) = [sun_icon] \<and>
   theme_texts (handleChange False cleared_manager) = [txt_day] \<and>
   theme_buttons (handleChange False cleared_manager) =
     [\<lparr>title = txt_switch_to @ txt_day @ txt_mode,
       aria_label = Some (txt_switch_to @ txt_day @ txt_mode)\<rparr>] \<and>
   txt_day \<noteq> txt_night"
proof -
  have kept: "preference_stored (new_ThemeManager dark_stored_page)"
    by (simp add: preference_stored_iff example_defs method_defs storage_defs Let_def)
  have absent: "\<not> preference_stored cleared_manager"
    by (simp add: preference_stored_iff example_defs method_defs storage_defs Let_def)
  have themes: "getCurrentTheme (new_ThemeManager dark_stored_page) = ''dark''"
    "getCurrentTheme cleared_manager = ''light''"
    by (simp_all add: example_defs method_defs storage_defs Let_def)
  have before: "theme_icons cleared_manager = [moon_icon]"
    "theme_texts cleared_manager = [txt_night]"
    "theme_buttons cleared_manager =
       [\<lparr>title = txt_switch_to @ txt_night @ txt_mode,
         aria_label = Some (txt_switch_to @ txt_night @ txt_mode)\<rparr>]"
    by (simp_all add: example_defs method_defs storage_defs Let_def icon_markup_def
        text_label_def button_label_def)
  have differ: "txt_day \<noteq> txt_night"
    by (simp add: txt_day_def txt_night_def)
  from system_change_respects_preference [of "new_ThemeManager dark_stored_page" True] kept
  have unchanged: "handleChange True (new_ThemeManager dark_stored_page) =
      new_ThemeManager dark_stored_page"
    by blast
  from system_change_respects_preference [of cleared_manager False] absent
  have followed: "getCurrentTheme (handleChange False cleared_manager) =
      (if False then ''light'' else ''dark'')"
    "data_theme (handleChange False cleared_manager) = (if False then Some ''light'' else None)"
    "theme_icons (handleChange False cleared_manager) =
       map (\<lambda>icon. if False then moon_icon else sun_icon) (theme_icons cleared_manager)"
    "theme_texts (handleChange False cleared_manager) =
       map (\<lambda>text. if False then txt_night else txt_day) (theme_texts cleared_manager)"
    "theme_buttons (handleChange False cleared_manager) =
       map (\<lambda>b. b\<lparr>title := txt_switch_to @ (if False then txt_night else txt_day) @ txt_mode,
                     aria_label :=
                       Some (txt_switch_to @ (if False then txt_night else txt_day) @ txt_mode)\<rparr>)
           (theme_buttons cleared_manager)"
    by blast+
  from kept absent themes before differ unchanged followed show ?thesis
    by simp
qed

section \<open>Applying a theme\<close>

text \<open>
  C5 (as stated): after \<^verbatim>\<open>applyTheme(t)\<close> the persisted value equals \<open>t\<close>. This fails when the
  write throws: on a manager built over storage that refuses writes, \<^verbatim>\<open>applyTheme('dark')\<close> sets
  the current theme and removes the marker, and the store still has no entry.
\<close>

theorem applyTheme_unsaved_when_write_throws:
  "getCurrentTheme (applyTheme ''dark'' (new_ThemeManager readonly_page)) = ''dark'' \<and>
   data_theme (applyTheme ''dark'' (new_ThemeManager readonly_page)) = None \<and>
   stored (applyTheme ''dark'' (new_ThemeManager readonly_page)) = None \<and>
   stored (applyTheme ''dark'' (new_ThemeManager readonly_page)) \<noteq> Some ''dark''"
proof -
  have refused: "write_throws (new_ThemeManager readonly_page)"
    and empty: "stored (new_ThemeManager readonly_page) = None"
    by (simp_all add: example_defs method_defs storage_defs Let_def)
  then show ?thesis
    by (simp add: getCurrentTheme_def applyTheme_currentTheme applyTheme_data_theme
        applyTheme_stored)
qed

text \<open>
  C5 (amended): for \<open>t\<close> in \<^verbatim>\<open>light\<close>/\<^verbatim>\<open>dark\<close>, after \<^verbatim>\<open>applyTheme(t)\<close> \<^verbatim>\<open>getCurrentTheme()\<close> returns
  \<open>t\<close>, the marker is present with value \<^verbatim>\<open>light\<close> for \<^verbatim>\<open>light\<close> and removed for \<^verbatim>\<open>dark\<close>, and
  the persisted value equals \<open>t\<close> provided the write does not throw; when it throws the
  persisted value is what it was.
\<close>

theorem applyTheme_effect:
  assumes "t = ''light'' \<or> t = ''dark''"
  shows "getCurrentTheme (applyTheme t this) = t \<and>
         data_theme (applyTheme t this) = (if t = ''light'' then Some ''light'' else None) \<and>
         (\<not> write_throws this \<longrightarrow> stored (applyTheme t this) = Some t) \<and>
         (write_throws this \<longrightarrow> stored (applyTheme t this) = stored this)"
  by (simp add: getCurrentTheme_def applyTheme_currentTheme applyTheme_data_theme
      applyTheme_stored)

theorem applyTheme_effect_witness:
  "\<not> write_throws (new_ThemeManager fresh_page) \<and>
   getCurrentTheme (applyTheme ''dark'' (new_ThemeManager fresh_page)) = ''dark'' \<and>
   data_theme (applyTheme ''dark'' (new_ThemeManager fresh_page)) = None \<and>
   stored (applyTheme ''dark'' (new_ThemeManager fresh_page)) = Some ''dark'' \<and>
   write_throws (new_ThemeManager readonly_page) \<and>
   data_theme (applyTheme ''light'' (new_ThemeManager readonly_page)) = Some ''light'' \<and>
   stored (applyTheme ''light'' (new_ThemeManager readonly_page)) =
     stored (new_ThemeManager readonly_page)"
proof -
  have writable: "\<not> write_throws (new_ThemeManager fresh_page)"
    and refused: "write_throws (new_ThemeManager readonly_page)"
    by (simp_all add: example_defs method_defs storage_defs Let_def)
  have dark: "''dark'' = ''light'' \<or> ''dark'' = ''dark''"
    and light: "''light'' = ''light'' \<or> ''light'' = ''dark''"
    by simp_all
  show ?thesis
    using applyTheme_effect [OF dark, of "new_ThemeManager fresh_page"]
      applyTheme_effect [OF light, of "new_ThemeManager readonly_page"] writable refused
    by simp
qed

section \<open>Toggling\<close>

text \<open>
  C6 (as stated): from every state with current theme \<^verbatim>\<open>light\<close> or \<^verbatim>\<open>dark\<close>, two consecutive
  \<^verbatim>\<open>toggleTheme\<close> calls restore the original theme and the original button label and icon. The
  theme is restored, the label is not when the controls did not show the current theme to begin
  with: after a direct \<^verbatim>\<open>applyTheme('dark')\<close>, which does not refresh the controls, the text
  control still reads "night"; two toggles later the theme is \<^verbatim>\<open>dark\<close> again and the text reads
  "day".
\<close>

theorem toggleTheme_twice_changes_stale_label:
  "getCurrentTheme unsynced_manager = ''dark'' \<and>
   theme_texts unsynced_manager = [txt_night] \<and>
   getCurrentTheme (toggleTheme (toggleTheme unsynced_manager)) = ''dark'' \<and>
   theme_texts (toggleTheme (toggleTheme unsynced_manager)) = [txt_day] \<and>
   theme_texts (toggleTheme (toggleTheme unsynced_manager)) \<noteq> theme_texts unsynced_manager"
proof -
  have theme: "currentTheme unsynced_manager = ''dark''"
    by (simp add: unsynced_manager_def applyTheme_currentTheme)
  have "theme_texts (new_ThemeManager fresh_page) = [txt_night]"
    by (simp add: method_defs storage_defs example_defs text_label_def Let_def)
  then have texts: "theme_texts unsynced_manager = [txt_night]"
    by (simp add: unsynced_manager_def applyTheme_frame)
  from theme texts
  have twice: "theme_texts (toggleTheme (toggleTheme unsynced_manager)) = [txt_day]"
    by (simp add: toggleTheme_controls toggleTheme_currentTheme text_label_def)
  have "txt_day \<noteq> txt_night"
    by (simp add: txt_day_def txt_night_def)
  with theme texts twice show ?thesis
    by (simp add: getCurrentTheme_def toggleTheme_currentTheme)
qed

text \<open>
  C6 (amended): from every state with current theme \<^verbatim>\<open>light\<close> or \<^verbatim>\<open>dark\<close>, two consecutive
  \<^verbatim>\<open>toggleTheme\<close> calls restore the original theme and leave every control that was in the
  document with the icon, text and labels of that theme; these are the original icon, text and
  labels exactly when the controls showed the current theme before the two calls, as they do
  after the constructor, after a toggle, after \<^verbatim>\<open>setTheme\<close> with a theme and after a notification
  that is followed.
\<close>

theorem toggleTheme_twice:
  assumes "currentTheme this = ''light'' \<or> currentTheme this = ''dark''"
  shows "getCurrentTheme (toggleTheme (toggleTheme this)) = getCurrentTheme this \<and>
         theme_icons (toggleTheme (toggleTheme this)) =
           map (\<lambda>icon. if currentTheme this = ''light'' then moon_icon else sun_icon)
               (theme_icons this) \<and>
         theme_texts (toggleTheme (toggleTheme this)) =
           map (\<lambda>text. if currentTheme this = ''light'' then txt_night else txt_day)
               (theme_texts this) \<and>
         theme_buttons (toggleTheme (toggleTheme this)) =
           map (\<lambda>b. b\<lparr>title := txt_switch_to @
                                  (if currentTheme this = ''light'' then txt_night else txt_day) @
                                  txt_mode,
                         aria_label := Some (txt_switch_to @
                                  (if currentTheme this = ''light'' then txt_night else txt_day) @
                                  txt_mode)\<rparr>)
               (theme_buttons this) \<and>
         (theme_icons (toggleTheme (toggleTheme this)) = theme_icons this \<and>
          theme_texts (toggleTheme (toggleTheme this)) = theme_texts this \<and>
          theme_buttons (toggleTheme (toggleTheme this)) = theme_buttons this
            \<longleftrightarrow> controls_synced this) \<and>
         controls_synced (new_ThemeManager p) \<and>
         controls_synced (toggleTheme this) \<and>
         controls_synced (setTheme (JString ''light'') this) \<and>
         controls_synced (setTheme (JString ''dark'') this) \<and>
         (\<not> preference_stored this \<longrightarrow> controls_synced (handleChange e this))"
proof -
  let ?twice = "toggleTheme (toggleTheme this)"
  let ?isLight = "currentTheme this = ''light''"
  from assms have theme: "currentTheme ?twice = currentTheme this"
    by (auto simp add: toggleTheme_currentTheme)
  have icons: "theme_icons ?twice = map (\<lambda>icon. icon_markup ?isLight) (theme_icons this)"
    and texts: "theme_texts ?twice = map (\<lambda>text. text_label ?isLight) (theme_texts this)"
    and buttons: "theme_buttons ?twice =
      map (\<lambda>b. b\<lparr>title := button_label ?isLight, aria_label := Some (button_label ?isLight)\<rparr>)
          (theme_buttons this)"
    using assms by (auto simp add: toggleTheme_controls toggleTheme_currentTheme o_def)
  have restored: "theme_icons ?twice = theme_icons this \<and> theme_texts ?twice = theme_texts this \<and>
      theme_buttons ?twice = theme_buttons this \<longleftrightarrow> controls_synced this"
    by (simp add: icons texts buttons map_const_same map_button_same controls_synced_def
        controls_show_def)
  have after: "controls_synced (new_ThemeManager p)" "controls_synced (toggleTheme this)"
    "controls_synced (setTheme (JString ''light'') this)"
    "controls_synced (setTheme (JString ''dark'') this)"
    by (simp_all add: controls_synced_constructed controls_synced_toggleTheme setTheme_valid
        controls_synced_updateThemeButton)
  have followed: "controls_synced (handleChange e this)" if "\<not> preference_stored this"
    using that by (simp add: handleChange_followed controls_synced_updateThemeButton)
  from icons texts buttons have written:
    "theme_icons ?twice =
       map (\<lambda>icon. if ?isLight then moon_icon else sun_icon) (theme_icons this)"
    "theme_texts ?twice =
       map (\<lambda>text. if ?isLight then txt_night else txt_day) (theme_texts this)"
    "theme_buttons ?twice =
       map (\<lambda>b. b\<lparr>title := txt_switch_to @ (if ?isLight then txt_night else txt_day) @ txt_mode,
                     aria_label :=
                       Some (txt_switch_to @ (if ?isLight then txt_night else txt_day) @ txt_mode)\<rparr>)
           (theme_buttons this)"
    by (simp_all add: icon_markup_def text_label_def button_label_def)
  from theme written restored after followed show ?thesis
    by (simp add: getCurrentTheme_def)
qed

theorem toggleTheme_twice_witness:
  "currentTheme (new_ThemeManager fresh_page) = ''light'' \<and>
   controls_synced (new_ThemeManager fresh_page) \<and>
   getCurrentTheme (toggleTheme (new_ThemeManager fresh_page)) = ''dark'' \<and>
   theme_texts (toggleTheme (new_ThemeManager fresh_page)) = [txt_day] \<and>
   getCurrentTheme (toggleTheme (toggleTheme (new_ThemeManager fresh_page))) = ''light'' \<and>
   theme_texts (new_ThemeManager fresh_page) = [txt_night] \<and>
   theme_texts (toggleTheme (toggleTheme (new_ThemeManager fresh_page))) = [txt_night] \<and>
   theme_icons (toggleTheme (toggleTheme (new_ThemeManager fresh_page))) = [moon_icon] \<and>
   theme_icons (toggleTheme (toggleTheme (new_ThemeManager fresh_page))) =
     theme_icons (new_ThemeManager fresh_page) \<and>
   theme_buttons (toggleTheme (toggleTheme (new_ThemeManager fresh_page))) =
     theme_buttons (new_ThemeManager fresh_page) \<and>
   \<not> preference_stored cleared_manager \<and>
   controls_synced (handleChange False cleared_manager)"
proof -
  let ?m = "new_ThemeManager fresh_page"
  have start: "currentTheme ?m = ''light''"
    by (simp add: currentTheme_constructed resolveInitialTheme_def storage_defs example_defs)
  then have theme: "currentTheme ?m = ''light'' \<or> currentTheme ?m = ''dark''"
    by simp
  have before: "theme_icons ?m = [moon_icon]" "theme_texts ?m = [txt_night]"
    by (simp_all add: method_defs storage_defs example_defs icon_markup_def text_label_def Let_def)
  have once: "getCurrentTheme (toggleTheme ?m) = ''dark''"
    "theme_texts (toggleTheme ?m) = [txt_day]"
    using start before
    by (simp_all add: getCurrentTheme_def toggleTheme_currentTheme toggleTheme_controls
        text_label_def)
  have absent: "\<not> preference_stored cleared_manager"
    by (simp add: preference_stored_iff example_defs method_defs storage_defs Let_def)
  have light: "currentTheme cleared_manager = ''light'' \<or> currentTheme cleared_manager = ''dark''"
    by (simp add: example_defs method_defs storage_defs Let_def)
  note first = toggleTheme_twice [OF theme, of fresh_page False]
  from first have synced: "controls_synced ?m"
    by blast
  with first have restored: "theme_icons (toggleTheme (toggleTheme ?m)) = theme_icons ?m"
    "theme_texts (toggleTheme (toggleTheme ?m)) = theme_texts ?m"
    "theme_buttons (toggleTheme (toggleTheme ?m)) = theme_buttons ?m"
    "getCurrentTheme (toggleTheme (toggleTheme ?m)) = getCurrentTheme ?m"
    by blast+
  from toggleTheme_twice [OF light, of fresh_page False] absent
  have followed: "controls_synced (handleChange False cleared_manager)"
    by blast
  from start synced before once restored absent followed show ?thesis
    by (simp add: getCurrentTheme_def)
qed

section \<open>Storage failures\<close>

text \<open>
  C8: when the storage write throws, \<^verbatim>\<open>saveTheme\<close> returns normally, having only logged a
  warning, and \<^verbatim>\<open>applyTheme\<close> still sets the current theme and the marker, to the values it
  sets when the write succeeds.
\<close>

theorem saveTheme_swallows_write_error:
  assumes "localStorage_setItem t this = Inl err"
  shows "saveTheme t this = this\<lparr>console := console this @ [CannotSavePreference err]\<rparr> \<and>
         getCurrentTheme (applyTheme t this) = t \<and>
         data_theme (applyTheme t this) = (if t = ''light'' then Some ''light'' else None) \<and>
         getCurrentTheme (applyTheme t this) =
           getCurrentTheme (applyTheme t (this\<lparr>write_throws := False\<rparr>)) \<and>
         data_theme (applyTheme t this) = data_theme (applyTheme t (this\<lparr>write_throws := False\<rparr>)) \<and>
         stored (applyTheme t this) = stored this"
proof -
  from assms have refused: "write_throws this"
    by (simp add: localStorage_setItem_def split: if_splits)
  from assms have "saveTheme t this = this\<lparr>console := console this @ [CannotSavePreference err]\<rparr>"
    by (simp add: saveTheme_def)
  with refused show ?thesis
    by (simp add: getCurrentTheme_def applyTheme_currentTheme applyTheme_data_theme
        applyTheme_stored)
qed

theorem saveTheme_swallows_write_error_witness:
  "localStorage_setItem ''dark'' (new_ThemeManager readonly_page) = Inl StorageError \<and>
   console (saveTheme ''dark'' (new_ThemeManager readonly_page)) =
     console (new_ThemeManager readonly_page) @ [CannotSavePreference StorageError] \<and>
   getCurrentTheme (new_ThemeManager readonly_page) = ''light'' \<and>
   getCurrentTheme (applyTheme ''dark'' (new_ThemeManager readonly_page)) = ''dark'' \<and>
   data_theme (new_ThemeManager readonly_page) = Some ''light'' \<and>
   data_theme (applyTheme ''dark'' (new_ThemeManager readonly_page)) = None"
proof -
  have refused: "write_throws (new_ThemeManager readonly_page)"
    by (simp add: example_defs method_defs storage_defs Let_def)
  then have thrown: "localStorage_setItem ''dark'' (new_ThemeManager readonly_page) = Inl StorageError"
    by (simp add: localStorage_setItem_def)
  have start: "getCurrentTheme (new_ThemeManager readonly_page) = ''light''"
    "data_theme (new_ThemeManager readonly_page) = Some ''light''"
    by (simp_all add: example_defs method_defs storage_defs Let_def)
  from saveTheme_swallows_write_error [OF thrown] thrown start show ?thesis
    by simp
qed

section \<open>Setting a theme directly\<close>

text \<open>
  C9: for every input other than the strings \<^verbatim>\<open>light\<close> and \<^verbatim>\<open>dark\<close>, \<^verbatim>\<open>setTheme\<close> changes
  nothing: current theme, marker, stored value and controls stay as they are. For \<^verbatim>\<open>light\<close> and
  \<^verbatim>\<open>dark\<close> it applies the theme (current theme, marker, and the stored value unless the write
  throws) and refreshes the controls: every icon, text and button that was in the document is
  still there and carries the markup and labels of the theme set. It never calls the notification
  function.
\<close>

theorem setTheme_validates:
  "(v \<noteq> JString ''light'' \<and> v \<noteq> JString ''dark'' \<longrightarrow> setTheme v this = this) \<and>
   (t = ''light'' \<or> t = ''dark'' \<longrightarrow>
      getCurrentTheme (setTheme (JString t) this) = t \<and>
      data_theme (setTheme (JString t) this) = (if t = ''light'' then Some ''light'' else None) \<and>
      stored (setTheme (JString t) this) = (if write_throws this then stored this else Some t) \<and>
      theme_icons (setTheme (JString t) this) =
        map (\<lambda>icon. if t = ''light'' then moon_icon else sun_icon) (theme_icons this) \<and>
      theme_texts (setTheme (JString t) this) =
        map (\<lambda>text. if t = ''light'' then txt_night else txt_day) (theme_texts this) \<and>
      theme_buttons (setTheme (JString t) this) =
        map (\<lambda>b. b\<lparr>title := txt_switch_to @ (if t = ''light'' then txt_night else txt_day) @ txt_mode,
                      aria_label :=
                        Some (txt_switch_to @ (if t = ''light'' then txt_night else txt_day) @
                              txt_mode)\<rparr>)
            (theme_buttons this) \<and>
      controls_synced (setTheme (JString t) this)) \<and>
   toasts (setTheme v this) = toasts this"
proof -
  have invalid: "setTheme v this = this" if "v \<noteq> JString ''light'' \<and> v \<noteq> JString ''dark''"
    using that by (simp add: setTheme_invalid)
  have valid: "getCurrentTheme (setTheme (JString t) this) = t \<and>
      data_theme (setTheme (JString t) this) = (if t = ''light'' then Some ''light'' else None) \<and>
      stored (setTheme (JString t) this) = (if write_throws this then stored this else Some t) \<and>
      controls_synced (setTheme (JString t) this)"
    if "t = ''light'' \<or> t = ''dark''"
    using that
    by (simp add: setTheme_valid getCurrentTheme_def updateThemeButton_frame
        applyTheme_currentTheme applyTheme_data_theme applyTheme_stored
        controls_synced_updateThemeButton)
  have controls:
    "theme_icons (setTheme (JString t) this) =
       map (\<lambda>icon. if t = ''light'' then moon_icon else sun_icon) (theme_icons this) \<and>
     theme_texts (setTheme (JString t) this) =
       map (\<lambda>text. if t = ''light'' then txt_night else txt_day) (theme_texts this) \<and>
     theme_buttons (setTheme (JString t) this) =
       map (\<lambda>b. b\<lparr>title := txt_switch_to @ (if t = ''light'' then txt_night else txt_day) @ txt_mode,
                     aria_label :=
                       Some (txt_switch_to @ (if t = ''light'' then txt_night else txt_day) @
                             txt_mode)\<rparr>)
           (theme_buttons this)"
    if "t = ''light'' \<or> t = ''dark''"
    using that
    by (simp add: setTheme_valid refreshed_controls icon_markup_def text_label_def
        button_label_def)
  have quiet: "toasts (setTheme v this) = toasts this"
  proof (cases "v = JString ''light'' \<or> v = JString ''dark''")
    case True
    then show ?thesis
      by (auto simp add: setTheme_valid updateThemeButton_frame applyTheme_frame)
  next
    case False
    then show ?thesis by (simp add: setTheme_invalid)
  qed
  from invalid valid controls quiet show ?thesis by blast
qed

theorem setTheme_validates_witness:
  "JString ''blue'' \<noteq> JString ''light'' \<and> JString ''blue'' \<noteq> JString ''dark'' \<and>
   setTheme (JString ''blue'') (new_ThemeManager fresh_page) = new_ThemeManager fresh_page \<and>
   getCurrentTheme (new_ThemeManager fresh_page) = ''light'' \<and>
   theme_texts (new_ThemeManager fresh_page) = [txt_night] \<and>
   getCurrentTheme (setTheme (JString ''dark'') (new_ThemeManager fresh_page)) = ''dark'' \<and>
   data_theme (setTheme (JString ''dark'') (new_ThemeManager fresh_page)) = None \<and>
   stored (setTheme (JString ''dark'') (new_ThemeManager fresh_page)) = Some ''dark'' \<and>
   theme_icons (setTheme (JString ''dark'') (new_ThemeManager fresh_page)) = [sun_icon] \<and>
   theme_texts (setTheme (JString ''dark'') (new_ThemeManager fresh_page)) = [txt_day] \<and>
   theme_buttons (setTheme (JString ''dark'') (new_ThemeManager fresh_page)) =
     [\<lparr>title = txt_switch_to @ txt_day @ txt_mode,
       aria_label = Some (txt_switch_to @ txt_day @ txt_mode)\<rparr>] \<and>
   txt_day \<noteq> txt_night \<and>
   toasts (setTheme (JString ''dark'') (new_ThemeManager fresh_page)) = []"
proof -
  let ?m = "new_ThemeManager fresh_page"
  have start: "getCurrentTheme ?m = ''light''" "toasts ?m = []" "\<not> write_throws ?m"
    by (simp_all add: example_defs method_defs storage_defs Let_def)
  have before: "theme_icons ?m = [moon_icon]" "theme_texts ?m = [txt_night]"
    "theme_buttons ?m =
       [\<lparr>title = txt_switch_to @ txt_night @ txt_mode,
         aria_label = Some (txt_switch_to @ txt_night @ txt_mode)\<rparr>]"
    by (simp_all add: example_defs method_defs storage_defs Let_def icon_markup_def
        text_label_def button_label_def)
  have differ: "txt_day \<noteq> txt_night"
    by (simp add: txt_day_def txt_night_def)
  have other: "JString ''blue'' \<noteq> JString ''light'' \<and> JString ''blue'' \<noteq> JString ''dark''"
    and theme: "''dark'' = ''light'' \<or> ''dark'' = ''dark''"
    by simp_all
  from setTheme_validates [of "JString ''blue''" ?m "''dark''"] other theme
  have unchanged: "setTheme (JString ''blue'') ?m = ?m"
    and applied: "getCurrentTheme (setTheme (JString ''dark'') ?m) = ''dark''"
    "data_theme (setTheme (JString ''dark'') ?m) =
      (if ''dark'' = ''light'' then Some ''light'' else None)"
    "stored (setTheme (JString ''dark'') ?m) =
      (if write_throws ?m then stored ?m else Some ''dark'')"
    "theme_icons (setTheme (JString ''dark'') ?m) =
       map (\<lambda>icon. if ''dark'' = ''light'' then moon_icon else sun_icon) (theme_icons ?m)"
    "theme_texts (setTheme (JString ''dark'') ?m) =
       map (\<lambda>text. if ''dark'' = ''light'' then txt_night else txt_day) (theme_texts ?m)"
    "theme_buttons (setTheme (JString ''dark'') ?m) =
       map (\<lambda>b. b\<lparr>title := txt_switch_to @ (if ''dark'' = ''light'' then txt_night else txt_day) @
                              txt_mode,
                     aria_label :=
                       Some (txt_switch_to @ (if ''dark'' = ''light'' then txt_night else txt_day) @
                             txt_mode)\<rparr>)
           (theme_buttons ?m)"
    by blast+
  from setTheme_validates [of "JString ''dark''" ?m "''dark''"]
  have "toasts (setTheme (JString ''dark'') ?m) = toasts ?m"
    by blast
  with start before differ other unchanged applied show ?thesis
    by simp
qed

section \<open>Following the system only once\<close>

text \<open>
  C10 (as stated): once the listener has fired with no preference stored, every later
  notification finds a stored preference and never alters the theme again. This fails when the
  write throws: over storage that refuses writes nothing is ever stored, and a manager that
  followed the system to \<^verbatim>\<open>dark\<close> follows it back to \<^verbatim>\<open>light\<close> on the next notification.
\<close>

theorem follows_system_again_when_write_throws:
  "\<not> preference_stored (new_ThemeManager readonly_page) \<and>
   getCurrentTheme (handleChange False (new_ThemeManager readonly_page)) = ''dark'' \<and>
   \<not> preference_stored (handleChange False (new_ThemeManager readonly_page)) \<and>
   getCurrentTheme (handleChange True (handleChange False (new_ThemeManager readonly_page))) =
     ''light''"
proof -
  let ?m = "new_ThemeManager readonly_page"
  have refused: "write_throws ?m" and readable: "\<not> read_throws ?m" and empty: "stored ?m = None"
    by (simp_all add: example_defs method_defs storage_defs Let_def)
  from readable empty have absent: "\<not> preference_stored ?m"
    by (simp add: preference_stored_iff)
  then have first: "handleChange False ?m =
      updateThemeButton (applyTheme ''dark'' (snd (getStoredTheme ?m)))"
    by (simp add: handleChange_followed)
  with refused readable empty have still: "\<not> preference_stored (handleChange False ?m)"
    by (simp add: preference_stored_iff updateThemeButton_frame applyTheme_frame
        applyTheme_stored getStoredTheme_frame)
  from first have dark: "getCurrentTheme (handleChange False ?m) = ''dark''"
    by (simp add: getCurrentTheme_def updateThemeButton_frame applyTheme_currentTheme)
  from still have "getCurrentTheme (handleChange True (handleChange False ?m)) = ''light''"
    by (simp add: handleChange_followed getCurrentTheme_def updateThemeButton_frame
        applyTheme_currentTheme)
  with absent dark still show ?thesis by simp
qed

text \<open>
  C10 (amended): provided the storage neither refuses the write nor the read, once the listener
  fires with no preference stored it applies the new system theme, which \<^verbatim>\<open>applyTheme\<close> persists
  as the stored preference; every later notification then finds a stored preference and leaves
  the state as it is.
\<close>

theorem follows_system_once:
  assumes "\<not> read_throws this" and "\<not> write_throws this" and "\<not> preference_stored this"
  shows "getCurrentTheme (handleChange e this) = (if e then ''light'' else ''dark'') \<and>
         stored (handleChange e this) = Some (if e then ''light'' else ''dark'') \<and>
         preference_stored (handleChange e this) \<and>
         notifications es (handleChange e this) = handleChange e this"
proof -
  from assms(3) have followed: "handleChange e this =
      updateThemeButton (applyTheme (if e then ''light'' else ''dark'') (snd (getStoredTheme this)))"
    by (rule handleChange_followed)
  with assms(1,2) have saved: "stored (handleChange e this) = Some (if e then ''light'' else ''dark'')"
    and readable: "\<not> read_throws (handleChange e this)"
    by (simp_all add: updateThemeButton_frame applyTheme_frame applyTheme_stored
        getStoredTheme_frame)
  then have kept: "preference_stored (handleChange e this)"
    by (simp add: preference_stored_iff)
  then have "notifications es (handleChange e this) = handleChange e this"
    by (rule notifications_kept)
  moreover from followed
  have "getCurrentTheme (handleChange e this) = (if e then ''light'' else ''dark'')"
    by (simp add: getCurrentTheme_def updateThemeButton_frame applyTheme_currentTheme)
  ultimately show ?thesis using saved kept by simp
qed

theorem follows_system_once_witness:
  "\<not> read_throws cleared_manager \<and> \<not> write_throws cleared_manager \<and>
   \<not> preference_stored cleared_manager \<and>
   getCurrentTheme (handleChange False cleared_manager) = ''dark'' \<and>
   stored (handleChange False cleared_manager) = Some ''dark'' \<and>
   notifications [True, False, True] (handleChange False cleared_manager) =
     handleChange False cleared_manager"
proof -
  have readable: "\<not> read_throws cleared_manager"
    and writable: "\<not> write_throws cleared_manager"
    and absent: "\<not> preference_stored cleared_manager"
    by (simp_all add: preference_stored_iff example_defs method_defs storage_defs Let_def)
  from follows_system_once [OF readable writable absent, of False "[True, False, True]"]
    readable writable absent
  show ?thesis by simp
qed

end
